theory Spec2Isabelle
  imports Main
begin

section \<open>The FastAPI demo charm (src/charm.py)\<close>

text \<open>
  The charm is a class \<open>FastAPIDemoCharm\<close> whose handlers mutate the object and call
  the Pebble client of the workload container, the unit's status and an HTTP endpoint.
  The model passes the object explicitly: a handler takes the charm and returns the
  charm it leaves behind. Every call on a collaborator and every status assignment is
  appended to a trace, in program order, so that what a handler did can be read off.
\<close>

subsection \<open>Data\<close>

text \<open>The statuses of \<open>ops.model\<close> that the charm assigns.\<close>

datatype status =
    MaintenanceStatus string
  | WaitingStatus string
  | BlockedStatus string
  | ActiveStatus

text \<open>
  A service entry of a layer: the five keys the charm writes (lines 130-136). The
  environment is a dictionary.
\<close>

record service =
  override :: string
  summary :: string
  command :: string
  startup :: string
  environment :: "string \<rightharpoonup> string"

text \<open>
  A layer document as a dictionary: the metadata keys and the \<open>services\<close> mapping.
  The same shape is used for the plan fetched from the workload: the charm reads it with
  \<open>.get("services", {})\<close>, so a plan without the key reads as the empty mapping.
\<close>

record layer =
  layer_summary :: string
  description :: string
  services :: "string \<rightharpoonup> service"

text \<open>
  The workload container as the charm sees it: whether Pebble answers, and the plan
  Pebble currently holds.
\<close>

record container =
  reachable :: bool
  plan :: layer

text \<open>
  What the version endpoint does on a GET: the request times out, the connection fails,
  or a body arrives, which is either not JSON or a JSON object. The values of the object
  are strings, as the annotation \<open>-> str\<close> of \<open>_request_version\<close> has them; the calls
  on the Pebble client are taken to return.
\<close>

datatype body = NotJson | JsonObject "string \<rightharpoonup> string"

datatype http_reply = TimedOut | ConnectionFailed | Reply body

text \<open>Exceptions of the model: one constructor per way a statement of the charm raises.\<close>

datatype exn =
    ValueError
  | Timeout
  | ConnectionError
  | JSONDecodeError
  | KeyError string

text \<open>The payload of \<open>DatabaseCreatedEvent\<close> that the handler reads.\<close>

record database_created_event =
  endpoints :: string
  username :: string
  password :: string

text \<open>The observable actions of a handler, in the order the program performs them.\<close>

datatype effect =
    SetStatus status
  | CanConnect
  | GetPlan
  | AddLayer string layer bool
  | Restart string
  | GetServices string
  | HttpGet string
  | SetWorkloadVersion string

text \<open>
  The charm object with the collaborators it reaches: \<open>app_environment\<close> (line 33),
  the value of \<open>self.config["server-port"]\<close>, the container, the HTTP endpoint (a reply
  per URL), the unit's status and workload version, and the trace.
\<close>

record charm =
  app_environment :: "string \<rightharpoonup> string"
  server_port :: int
  container :: container
  http :: "string \<Rightarrow> http_reply"
  status :: status
  workload_version :: string
  trace :: "effect list"

definition pebble_service_name :: string where
  "pebble_service_name = ''fastapi-service''"

text \<open>
  \<open>__init__\<close> (lines 31-47) sets \<open>app_environment\<close> to the empty dictionary; the
  configuration, the container, the endpoint and the unit's status and version are given
  by the framework. Nothing has been done yet.
\<close>

definition init :: "int \<Rightarrow> container \<Rightarrow> (string \<Rightarrow> http_reply) \<Rightarrow> status \<Rightarrow> string \<Rightarrow> charm" where
  "init p c h st v =
     \<lparr>app_environment = Map.empty, server_port = p, container = c, http = h,
      status = st, workload_version = v, trace = []\<rparr>"

subsection \<open>Strings\<close>

text \<open>\<open>str.split(sep)\<close> for a one-character separator: the pieces between the separators.\<close>

fun str_split :: "char \<Rightarrow> string \<Rightarrow> string list" where
  "str_split c [] = [[]]"
| "str_split c (x # xs) =
     (if x = c then [] # str_split c xs
      else (case str_split c xs of
              [] \<Rightarrow> [[x]]
            | p # ps \<Rightarrow> (x # p) # ps))"

text \<open>\<open>sep.join(parts)\<close>.\<close>

fun join :: "string \<Rightarrow> string list \<Rightarrow> string" where
  "join sep [] = []"
| "join sep [x] = x"
| "join sep (x # y # ys) = x @ sep @ join sep (y # ys)"

text \<open>The decimal rendering of an integer, as an f-string formats it.\<close>

definition digit_char :: "nat \<Rightarrow> char" where
  "digit_char d = ''0123456789'' ! d"

fun str_of_nat :: "nat \<Rightarrow> string" where
  "str_of_nat n = (if n < 10 then [digit_char n] else str_of_nat (n div 10) @ [digit_char (n mod 10)])"

declare str_of_nat.simps [simp del]

definition str_of_int :: "int \<Rightarrow> string" where
  "str_of_int i = (if i < 0 then CHR ''-'' # str_of_nat (nat (- i)) else str_of_nat (nat i))"

subsection \<open>The calls on the collaborators\<close>

definition set_status :: "status \<Rightarrow> charm \<Rightarrow> charm" where
  "set_status st s = s\<lparr>status := st, trace := trace s @ [SetStatus st]\<rparr>"

definition set_workload_version :: "string \<Rightarrow> charm \<Rightarrow> charm" where
  "set_workload_version v s = s\<lparr>workload_version := v, trace := trace s @ [SetWorkloadVersion v]\<rparr>"

definition can_connect :: "charm \<Rightarrow> bool \<times> charm" where
  "can_connect s = (reachable (container s), s\<lparr>trace := trace s @ [CanConnect]\<rparr>)"

definition get_plan :: "charm \<Rightarrow> layer \<times> charm" where
  "get_plan s = (plan (container s), s\<lparr>trace := trace s @ [GetPlan]\<rparr>)"

text \<open>
  Modelled from the spec: the effect of Pebble's \<open>add_layer(label, layer, combine=True)\<close>
  on the plan is not in the source (it is the Pebble client's). The spec gives it as
  merge/overlay semantics that never removes unrelated services: the services of the new
  layer are laid over those of the plan, entry by entry (each entry of the charm's layer
  has \<open>override: replace\<close>).
\<close>

definition add_layer :: "string \<Rightarrow> layer \<Rightarrow> bool \<Rightarrow> charm \<Rightarrow> charm" where
  "add_layer label l combine s =
     s\<lparr>container := (container s)\<lparr>plan := (plan (container s))\<lparr>services := services (plan (container s)) ++ services l\<rparr>\<rparr>,
       trace := trace s @ [AddLayer label l combine]\<rparr>"

definition restart :: "string \<Rightarrow> charm \<Rightarrow> charm" where
  "restart name s = s\<lparr>trace := trace s @ [Restart name]\<rparr>"

text \<open>
  \<open>get_services(name)\<close>: the entries of the plan under that name, none when the plan has
  no such service.
\<close>

definition get_services :: "string \<Rightarrow> charm \<Rightarrow> service list \<times> charm" where
  "get_services name s =
     ((case services (plan (container s)) name of None \<Rightarrow> [] | Some sv \<Rightarrow> [sv]),
      s\<lparr>trace := trace s @ [GetServices name]\<rparr>)"

subsection \<open>The charm's methods\<close>

text \<open>\<open>_pebble_layer\<close> (lines 115-139).\<close>

definition pebble_layer :: "charm \<Rightarrow> layer" where
  "pebble_layer s =
     (let command = join '' '' [''uvicorn'', ''api_demo_server.app:app'', ''--host=0.0.0.0'',
                              ''--port='' @ str_of_int (server_port s)]
      in \<lparr>layer_summary = ''FastAPI demo service'',
          description = ''pebble config layer for FastAPI demo server'',
          services = [pebble_service_name \<mapsto>
                        \<lparr>override = ''replace'', summary = ''fastapi demo'', command = command,
                         startup = ''enabled'', environment = app_environment s\<rparr>]\<rparr>)"

text \<open>
  \<open>_request_version\<close> (lines 154-157): the GET, then \<open>resp.json()["version"]\<close>. Each way
  it raises is an \<open>Inl\<close>.
\<close>

definition request_version :: "charm \<Rightarrow> (exn + string) \<times> charm" where
  "request_version s =
     (let url = ''http://localhost:'' @ str_of_int (server_port s) @ ''/version'';
          s1 = s\<lparr>trace := trace s @ [HttpGet url]\<rparr>
      in (case http s url of
            TimedOut \<Rightarrow> (Inl Timeout, s1)
          | ConnectionFailed \<Rightarrow> (Inl ConnectionError, s1)
          | Reply NotJson \<Rightarrow> (Inl JSONDecodeError, s1)
          | Reply (JsonObject m) \<Rightarrow>
              (case m ''version'' of
                 None \<Rightarrow> (Inl (KeyError ''version''), s1)
               | Some v \<Rightarrow> (Inr v, s1))))"

text \<open>
  \<open>version\<close> (lines 141-152): \<open>and\<close> short-circuits, and \<open>except Exception\<close> falls
  through to \<open>return ""\<close>.
\<close>

definition version :: "charm \<Rightarrow> string \<times> charm" where
  "version s =
     (let (ok, s1) = can_connect s in
      if ok then
        (let (infos, s2) = get_services pebble_service_name s1 in
         if infos \<noteq> [] then
           (case request_version s2 of
              (Inr v, s3) \<Rightarrow> (v, s3)
            | (Inl e, s3) \<Rightarrow> ('''', s3))
         else ('''', s2))
      else ('''', s1))"

text \<open>\<open>_update_layer_and_restart\<close> (lines 84-113); the event is not read.\<close>

definition update_layer_and_restart :: "charm \<Rightarrow> charm" where
  "update_layer_and_restart s =
     (let s1 = set_status (MaintenanceStatus ''Assembling pod spec'') s;
          (ok, s2) = can_connect s1
      in if ok then
           (let new_layer = pebble_layer s2;
                (p, s3) = get_plan s2;
                svcs = services p;
                s4 = (if svcs \<noteq> services new_layer
                      then restart pebble_service_name
                             (add_layer ''fastapi_demo'' (pebble_layer s3) True s3)
                      else s3);
                (v, s5) = version s4;
                s6 = set_workload_version v s5
            in set_status ActiveStatus s6)
         else set_status (WaitingStatus ''Waiting for Pebble in workload container'') s2)"

text \<open>
  \<open>_on_database_created\<close> (lines 49-63): unpacking the split into two names raises
  \<open>ValueError\<close> unless there are exactly two pieces; nothing has been assigned by then.
\<close>

definition on_database_created :: "database_created_event \<Rightarrow> charm \<Rightarrow> exn + charm" where
  "on_database_created ev s =
     (case str_split CHR '':'' (endpoints ev) of
        [host, port] \<Rightarrow>
          Inr (update_layer_and_restart
                 (s\<lparr>app_environment :=
                       [''DEMO_SERVER_DB_HOST'' \<mapsto> host,
                        ''DEMO_SERVER_DB_PORT'' \<mapsto> port,
                        ''DEMO_SERVER_DB_USER'' \<mapsto> username ev,
                        ''DEMO_SERVER_DB_PASSWORD'' \<mapsto> password ev]\<rparr>))
      | _ \<Rightarrow> Inl ValueError)"

text \<open>\<open>_on_database_relation_removed\<close> (lines 65-72).\<close>

definition on_database_relation_removed :: "charm \<Rightarrow> charm" where
  "on_database_relation_removed s =
     set_status (WaitingStatus ''Waiting for database relation'') (s\<lparr>app_environment := Map.empty\<rparr>)"

text \<open>\<open>_on_config_changed\<close> (lines 74-82).\<close>

definition on_config_changed :: "charm \<Rightarrow> charm" where
  "on_config_changed s =
     (if server_port s = 22
      then set_status (BlockedStatus ''invalid port number, 22 is reserved for SSH'') s
      else update_layer_and_restart s)"

text \<open>The events the charm observes (lines 40-47) and the handler each one runs.\<close>

datatype event =
    DatabaseCreated database_created_event
  | EndpointsChanged database_created_event
  | DatabaseRelationBroken
  | DemoServerPebbleReady
  | ConfigChanged

fun dispatch :: "event \<Rightarrow> charm \<Rightarrow> exn + charm" where
  "dispatch (DatabaseCreated ev) s = on_database_created ev s"
| "dispatch (EndpointsChanged ev) s = on_database_created ev s"
| "dispatch DatabaseRelationBroken s = Inr (on_database_relation_removed s)"
| "dispatch DemoServerPebbleReady s = Inr (update_layer_and_restart s)"
| "dispatch ConfigChanged s = Inr (on_config_changed s)"

subsection \<open>Reading a trace\<close>

text \<open>The calls that change the workload: applying a layer and restarting a service.\<close>

fun is_mutation :: "effect \<Rightarrow> bool" where
  "is_mutation (AddLayer label l combine) = True"
| "is_mutation (Restart name) = True"
| "is_mutation e = False"

definition mutations :: "effect list \<Rightarrow> effect list" where
  "mutations t = filter is_mutation t"

text \<open>The statuses assigned, in order.\<close>

fun status_writes :: "effect list \<Rightarrow> status list" where
  "status_writes [] = []"
| "status_writes (SetStatus st # t) = st # status_writes t"
| "status_writes (e # t) = status_writes t"

subsection \<open>The credentials\<close>




subsection \<open>Example charms\<close>

definition empty_plan :: layer where
  "empty_plan = \<lparr>layer_summary = '''', description = '''', services = Map.empty\<rparr>"

text \<open>A new charm on a reachable workload whose plan is empty; the version endpoint is down.\<close>

definition fresh_charm :: charm where
  "fresh_charm =
     init 8000 \<lparr>reachable = True, plan = empty_plan\<rparr> (\<lambda>url. ConnectionFailed)
       (MaintenanceStatus '''') ''''"

text \<open>The same, on a workload whose plan already holds a service of another name.\<close>

definition sidecar_charm :: charm where
  "sidecar_charm =
     init 8000
       \<lparr>reachable = True,
        plan = \<lparr>layer_summary = '''', description = '''',
                services = [''sidecar'' \<mapsto>
                  \<lparr>override = ''replace'', summary = ''log shipper'', command = ''promtail'',
                   startup = ''enabled'', environment = Map.empty\<rparr>]\<rparr>\<rparr>
       (\<lambda>url. ConnectionFailed) (MaintenanceStatus '''') ''''"
text \<open>
  A charm that has reconciled once on a reachable workload whose endpoint answers
  version 1.0.0, after which the workload has become unreachable.
\<close>

definition unplugged_charm :: charm where
  "unplugged_charm =
     (let s = update_layer_and_restart
                (init 8000 \<lparr>reachable = True, plan = empty_plan\<rparr>
                   (\<lambda>url. Reply (JsonObject [''version'' \<mapsto> ''1.0.0'']))
                   (MaintenanceStatus '''') '''')
      in s\<lparr>container := (container s)\<lparr>reachable := False\<rparr>\<rparr>)"


text \<open>The credentials event and the charm of scenario A.\<close>

definition alice_event :: database_created_event where
  "alice_event = \<lparr>endpoints = ''10.0.0.5:5432'', username = ''alice'', password = ''s3cr3t''\<rparr>"



section \<open>Properties\<close>

subsection \<open>What a reconciliation does\<close>

lemma mutations_simps [simp]:
  "mutations [] = []"
  "mutations (e # t) = (if is_mutation e then e # mutations t else mutations t)"
  "mutations (t @ u) = mutations t @ mutations u"
  by (simp_all add: mutations_def)

lemmas call_defs = set_status_def set_workload_version_def can_connect_def get_plan_def
  add_layer_def restart_def get_services_def request_version_def version_def

lemma version_fields:
  "app_environment (snd (version s)) = app_environment s"
  "server_port (snd (version s)) = server_port s"
  "http (snd (version s)) = http s"
  "container (snd (version s)) = container s"
  "status (snd (version s)) = status s"
  "workload_version (snd (version s)) = workload_version s"
  "mutations (trace (snd (version s))) = mutations (trace s)"
  by (simp_all add: call_defs Let_def
        split: http_reply.splits body.splits option.splits)

lemma update_unreachable:
  "\<not> reachable (container s) \<Longrightarrow>
   update_layer_and_restart s =
     s\<lparr>status := WaitingStatus ''Waiting for Pebble in workload container'',
       trace := trace s @ [SetStatus (MaintenanceStatus ''Assembling pod spec''), CanConnect,
                           SetStatus (WaitingStatus ''Waiting for Pebble in workload container'')]\<rparr>"
  by (simp add: update_layer_and_restart_def set_status_def can_connect_def Let_def)

lemmas update_unfold = update_layer_and_restart_def set_status_def set_workload_version_def
  can_connect_def get_plan_def add_layer_def restart_def Let_def split_def version_fields

lemma update_keeps_inputs:
  "app_environment (update_layer_and_restart s) = app_environment s"
  "server_port (update_layer_and_restart s) = server_port s"
  "http (update_layer_and_restart s) = http s"
  "reachable (container (update_layer_and_restart s)) = reachable (container s)"
  by (simp_all add: update_unfold)

lemma update_mutations:
  "reachable (container s) \<Longrightarrow>
   mutations (trace (update_layer_and_restart s)) =
     mutations (trace s) @
       (if services (plan (container s)) = services (pebble_layer s) then []
        else [AddLayer ''fastapi_demo'' (pebble_layer s) True, Restart pebble_service_name])"
  by (simp add: update_unfold pebble_layer_def)

lemma update_plan:
  "reachable (container s) \<Longrightarrow>
   plan (container (update_layer_and_restart s)) =
       (if services (plan (container s)) = services (pebble_layer s) then plan (container s)
        else (plan (container s))\<lparr>services := services (plan (container s)) ++ services (pebble_layer s)\<rparr>)"
  by (simp add: update_unfold pebble_layer_def)


lemma pebble_layer_cong:
  "app_environment s' = app_environment s \<Longrightarrow> server_port s' = server_port s \<Longrightarrow>
   pebble_layer s' = pebble_layer s"
  by (simp add: pebble_layer_def)

lemma map_add_absorb: "(m ++ n = n) = (dom m \<subseteq> dom n)"
proof
  assume h: "m ++ n = n"
  show "dom m \<subseteq> dom n"
  proof
    fix k assume "k \<in> dom m"
    then have "k \<in> dom (m ++ n)" by simp
    then show "k \<in> dom n" using h by simp
  qed
next
  assume h: "dom m \<subseteq> dom n"
  show "m ++ n = n"
  proof
    fix k
    show "(m ++ n) k = n k"
    proof (cases "n k")
      case None
      then have "m k = None" using h by blast
      then show ?thesis using None by (simp add: map_add_def)
    next
      case (Some v)
      then show ?thesis by (simp add: map_add_def)
    qed
  qed
qed

lemma dom_desired: "dom (services (pebble_layer s)) = {pebble_service_name}"
  by (simp add: pebble_layer_def)

lemma desired_present: "services (pebble_layer s) pebble_service_name \<noteq> None"
  by (simp add: pebble_layer_def)

lemma pebble_layer_update: "pebble_layer (update_layer_and_restart s) = pebble_layer s"
  by (rule pebble_layer_cong) (simp_all add: update_keeps_inputs)

lemma status_writes_append [simp]:
  "status_writes (t @ u) = status_writes t @ status_writes u"
  by (induction t rule: status_writes.induct) simp_all


lemma request_version_value:
  "fst (request_version s) =
     (case http s (''http://localhost:'' @ str_of_int (server_port s) @ ''/version'') of
        TimedOut \<Rightarrow> Inl Timeout
      | ConnectionFailed \<Rightarrow> Inl ConnectionError
      | Reply NotJson \<Rightarrow> Inl JSONDecodeError
      | Reply (JsonObject m) \<Rightarrow>
          (case m ''version'' of None \<Rightarrow> Inl (KeyError ''version'') | Some v \<Rightarrow> Inr v))"
  by (simp add: request_version_def Let_def split: http_reply.splits body.splits option.splits)

lemma request_version_cong:
  "http s' = http s \<Longrightarrow> server_port s' = server_port s \<Longrightarrow>
   fst (request_version s') = fst (request_version s)"
  by (simp add: request_version_value)

lemma version_value:
  "fst (version s) =
     (if reachable (container s) \<and> services (plan (container s)) pebble_service_name \<noteq> None
      then (case fst (request_version s) of Inl e \<Rightarrow> '''' | Inr v \<Rightarrow> v)
      else '''')"
  by (simp add: call_defs Let_def split: http_reply.splits body.splits option.splits)

lemma update_version:
  assumes "reachable (container s)"
  shows "workload_version (update_layer_and_restart s) =
           (case fst (request_version s) of Inl e \<Rightarrow> '''' | Inr v \<Rightarrow> v)"
proof -
  let ?s3 = "snd (get_plan (snd (can_connect (set_status (MaintenanceStatus ''Assembling pod spec'') s))))"
  let ?s4 = "if services (plan (container s)) \<noteq> services (pebble_layer s)
             then restart pebble_service_name (add_layer ''fastapi_demo'' (pebble_layer s) True ?s3)
             else ?s3"
  have w: "workload_version (update_layer_and_restart s) = fst (version ?s4)"
    using assms
    by (simp add: update_layer_and_restart_def set_status_def set_workload_version_def
          can_connect_def get_plan_def Let_def split_def pebble_layer_def)
  have r4: "reachable (container ?s4)"
    using assms by (simp add: set_status_def can_connect_def get_plan_def add_layer_def restart_def)
  have p4: "services (plan (container ?s4)) pebble_service_name \<noteq> None"
    using desired_present [of s]
    by (auto simp add: set_status_def can_connect_def get_plan_def add_layer_def restart_def
          map_add_def split: option.splits)
  have q4: "fst (request_version ?s4) = fst (request_version s)"
    by (rule request_version_cong)
       (simp_all add: set_status_def can_connect_def get_plan_def add_layer_def restart_def)
  show ?thesis
    using r4 p4 by (simp only: w version_value q4 simp_thms if_True)
qed


subsection \<open>Splitting the endpoint\<close>

lemma str_split_not_Nil: "str_split c s \<noteq> []"
  by (induction s) (auto split: list.splits)

lemma length_str_split: "length (str_split c s) = Suc (count_list s c)"
  by (induction s) (auto split: list.splits simp add: str_split_not_Nil)

lemma str_split_no_sep: "c \<notin> set s \<Longrightarrow> str_split c s = [s]"
  by (induction s) auto

lemma str_split_at_sep: "c \<notin> set h \<Longrightarrow> str_split c (h @ c # t) = h # str_split c t"
  by (induction h) (auto split: list.splits simp add: str_split_not_Nil)

lemma str_split_host_port:
  "c \<notin> set h \<Longrightarrow> c \<notin> set p \<Longrightarrow> str_split c (h @ c # p) = [h, p]"
  by (simp add: str_split_at_sep str_split_no_sep)

lemma one_sep_decompose:
  assumes "count_list s c = 1"
  shows "s = takeWhile (\<lambda>x. x \<noteq> c) s @ c # tl (dropWhile (\<lambda>x. x \<noteq> c) s)
       \<and> c \<notin> set (takeWhile (\<lambda>x. x \<noteq> c) s)
       \<and> c \<notin> set (tl (dropWhile (\<lambda>x. x \<noteq> c) s))"
proof -
  let ?h = "takeWhile (\<lambda>x. x \<noteq> c) s" and ?d = "dropWhile (\<lambda>x. x \<noteq> c) s"
  have "c \<in> set s"
    using assms count_list_0_iff [of s c] by auto
  then have d: "?d \<noteq> []"
    by auto
  then have hd: "hd ?d = c"
    using hd_dropWhile [of "\<lambda>x. x \<noteq> c" s] by simp
  have dec: "?d = c # tl ?d"
    using d hd by (cases ?d) simp_all
  have s: "s = ?h @ c # tl ?d"
    using takeWhile_dropWhile_id [of "\<lambda>x. x \<noteq> c" s] dec by metis
  have h: "c \<notin> set ?h"
    by (auto dest: set_takeWhileD)
  then have "count_list ?h c = 0"
    by (simp add: count_list_0_iff)
  have "count_list s c = count_list ?h c + count_list (c # tl ?d) c"
    by (subst s) (simp only: count_list_append)
  then have "count_list (tl ?d) c = 0"
    using assms \<open>count_list ?h c = 0\<close> by simp
  then have "c \<notin> set (tl ?d)"
    by (simp add: count_list_0_iff)
  then show ?thesis
    using s h by blast
qed

lemma unpack_two:
  "length xs \<noteq> 2 \<Longrightarrow> (case xs of [a, b] \<Rightarrow> f a b | _ \<Rightarrow> d) = d"
  by (auto split: list.splits)

lemma on_database_created_eq:
  "on_database_created ev s =
     (if count_list (endpoints ev) CHR '':'' = 1
      then Inr (update_layer_and_restart
             (s\<lparr>app_environment :=
                  [''DEMO_SERVER_DB_HOST'' \<mapsto> takeWhile (\<lambda>x. x \<noteq> CHR '':'') (endpoints ev),
                   ''DEMO_SERVER_DB_PORT'' \<mapsto> tl (dropWhile (\<lambda>x. x \<noteq> CHR '':'') (endpoints ev)),
                   ''DEMO_SERVER_DB_USER'' \<mapsto> username ev,
                   ''DEMO_SERVER_DB_PASSWORD'' \<mapsto> password ev]\<rparr>))
      else Inl ValueError)"
proof (cases "count_list (endpoints ev) CHR '':'' = 1")
  case True
  let ?h = "takeWhile (\<lambda>x. x \<noteq> CHR '':'') (endpoints ev)"
  let ?p = "tl (dropWhile (\<lambda>x. x \<noteq> CHR '':'') (endpoints ev))"
  from one_sep_decompose [OF True]
  have e: "endpoints ev = ?h @ CHR '':'' # ?p" and h: "CHR '':'' \<notin> set ?h" and p: "CHR '':'' \<notin> set ?p"
    by blast+
  have "str_split CHR '':'' (?h @ CHR '':'' # ?p) = [?h, ?p]"
    using h p by (rule str_split_host_port)
  then have "str_split CHR '':'' (endpoints ev) = [?h, ?p]"
    using e by simp
  then show ?thesis
    using True by (simp add: on_database_created_def)
next
  case False
  then have "length (str_split CHR '':'' (endpoints ev)) \<noteq> 2"
    by (simp add: length_str_split)
  then show ?thesis
    using False by (simp add: on_database_created_def unpack_two)
qed

lemma on_database_created_host_port:
  assumes "CHR '':'' \<notin> set h" and "CHR '':'' \<notin> set p" and "endpoints ev = h @ '':'' @ p"
  shows "on_database_created ev s =
          Inr (update_layer_and_restart
             (s\<lparr>app_environment :=
                  [''DEMO_SERVER_DB_HOST'' \<mapsto> h,
                   ''DEMO_SERVER_DB_PORT'' \<mapsto> p,
                   ''DEMO_SERVER_DB_USER'' \<mapsto> username ev,
                   ''DEMO_SERVER_DB_PASSWORD'' \<mapsto> password ev]\<rparr>))"
proof -
  have "str_split CHR '':'' (endpoints ev) = [h, p]"
    using assms by (simp add: str_split_host_port)
  then show ?thesis
    by (simp add: on_database_created_def)
qed






subsection \<open>C1: two reconciliations in a row\<close>

text \<open>
  C1, as stated, fails. On a reachable workload whose plan holds a service of another
  name, the fetched \<open>services\<close> mapping has two entries after the first call and the
  desired one has a single entry, so the second call applies the layer and restarts the
  service again: two applications and two restarts in total.
\<close>

theorem reconcile_twice_counterexample:
  "mutations (trace (update_layer_and_restart (update_layer_and_restart sidecar_charm))) =
     [AddLayer ''fastapi_demo'' (pebble_layer sidecar_charm) True, Restart ''fastapi-service'',
      AddLayer ''fastapi_demo'' (pebble_layer sidecar_charm) True, Restart ''fastapi-service'']"
proof -
  let ?s1 = "update_layer_and_restart sidecar_charm"
  have r0: "reachable (container sidecar_charm)"
    by (simp add: sidecar_charm_def init_def)
  have t0: "trace sidecar_charm = []"
    by (simp add: sidecar_charm_def init_def)
  have side0: "services (plan (container sidecar_charm)) ''sidecar'' \<noteq> None"
    by (simp add: sidecar_charm_def init_def)
  have des: "services (pebble_layer sidecar_charm) ''sidecar'' = None"
    by (simp add: pebble_layer_def pebble_service_name_def)
  from side0 des have ne0: "services (plan (container sidecar_charm)) \<noteq> services (pebble_layer sidecar_charm)"
    by metis
  have m1: "mutations (trace ?s1) =
      [AddLayer ''fastapi_demo'' (pebble_layer sidecar_charm) True, Restart pebble_service_name]"
    using update_mutations [OF r0] ne0 t0 by simp
  have p1: "services (plan (container ?s1)) =
      services (plan (container sidecar_charm)) ++ services (pebble_layer sidecar_charm)"
    using update_plan [OF r0] ne0 by simp
  have side1: "services (plan (container ?s1)) ''sidecar'' \<noteq> None"
    using side0 des by (simp add: p1 map_add_def)
  have ne1: "services (plan (container ?s1)) \<noteq> services (pebble_layer ?s1)"
    using side1 des by (metis pebble_layer_update)
  have r1: "reachable (container ?s1)"
    using r0 by (simp add: update_keeps_inputs)
  show ?thesis
    using update_mutations [OF r1] ne1 m1
    by (simp add: pebble_layer_update pebble_service_name_def)
qed

text \<open>
  C1, amended: when the workload is unreachable, or its plan holds no service other than
  the managed one, two calls of \<open>_update_layer_and_restart\<close> in a row, with nothing
  changed in between, issue at most one \<open>add_layer\<close> and one \<open>restart\<close> together: the
  second call issues none, and the first issues the pair exactly when the workload is
  reachable and the fetched services differ from the desired ones.
\<close>

theorem reconcile_twice:
  assumes "reachable (container s) \<longrightarrow> dom (services (plan (container s))) \<subseteq> {pebble_service_name}"
  shows "mutations (trace (update_layer_and_restart (update_layer_and_restart s))) =
           mutations (trace (update_layer_and_restart s))
       \<and> mutations (trace (update_layer_and_restart s)) =
           mutations (trace s) @
             (if reachable (container s) \<and> services (plan (container s)) \<noteq> services (pebble_layer s)
              then [AddLayer ''fastapi_demo'' (pebble_layer s) True, Restart pebble_service_name]
              else [])"
proof (cases "reachable (container s)")
  case False
  then have "\<not> reachable (container (update_layer_and_restart s))"
    by (simp add: update_keeps_inputs)
  then show ?thesis
    using False by (simp add: update_unreachable)
next
  case True
  let ?s1 = "update_layer_and_restart s"
  have sub: "dom (services (plan (container s))) \<subseteq> dom (services (pebble_layer s))"
    using assms True by (simp add: dom_desired)
  have "services (plan (container ?s1)) = services (pebble_layer s)"
    using update_plan [OF True] sub by (simp add: map_add_absorb)
  then have same: "services (plan (container ?s1)) = services (pebble_layer ?s1)"
    by (simp add: pebble_layer_update)
  have r1: "reachable (container ?s1)"
    using True by (simp add: update_keeps_inputs)
  show ?thesis
    using update_mutations [OF r1] update_mutations [OF True] same True by simp
qed

theorem reconcile_twice_witness:
  "reachable (container fresh_charm)
   \<and> dom (services (plan (container fresh_charm))) \<subseteq> {pebble_service_name}
   \<and> mutations (trace (update_layer_and_restart fresh_charm)) =
       [AddLayer ''fastapi_demo'' (pebble_layer fresh_charm) True, Restart ''fastapi-service'']
   \<and> mutations (trace (update_layer_and_restart (update_layer_and_restart fresh_charm))) =
       [AddLayer ''fastapi_demo'' (pebble_layer fresh_charm) True, Restart ''fastapi-service'']"
proof -
  have h: "reachable (container fresh_charm) \<longrightarrow>
      dom (services (plan (container fresh_charm))) \<subseteq> {pebble_service_name}"
    by (simp add: fresh_charm_def init_def empty_plan_def)
  have "services (plan (container fresh_charm)) pebble_service_name = None"
    by (simp add: fresh_charm_def init_def empty_plan_def)
  then have ne: "services (plan (container fresh_charm)) \<noteq> services (pebble_layer fresh_charm)"
    using desired_present [of fresh_charm] by metis
  have r: "reachable (container fresh_charm)" and t: "trace fresh_charm = []"
    by (simp_all add: fresh_charm_def init_def)
  show ?thesis
    using reconcile_twice [OF h] h ne r t by (simp add: pebble_service_name_def)
qed

subsection \<open>C2: the comparison of the services\<close>

text \<open>
  C2: on a reachable workload, \<open>_update_layer_and_restart\<close> decides by comparing the
  \<open>services\<close> mapping of the fetched plan with that of the desired layer, and nothing
  else. If they are equal, no \<open>add_layer\<close> and no \<open>restart\<close> is issued and the plan
  is left as it is; if they differ, the desired layer is applied under the label
  \<open>fastapi_demo\<close> with \<open>combine=True\<close> (its services laid over the plan's) and the
  managed service, and only it, is restarted. Changing the summary and description of the
  fetched document changes none of these calls.
\<close>

theorem plan_differ:
  assumes "reachable (container s)"
  shows "mutations (trace (update_layer_and_restart s)) =
           mutations (trace s) @
             (if services (plan (container s)) = services (pebble_layer s) then []
              else [AddLayer ''fastapi_demo'' (pebble_layer s) True, Restart pebble_service_name])
       \<and> plan (container (update_layer_and_restart s)) =
           (if services (plan (container s)) = services (pebble_layer s) then plan (container s)
            else (plan (container s))
                   \<lparr>services := services (plan (container s)) ++ services (pebble_layer s)\<rparr>)
       \<and> mutations (trace (update_layer_and_restart
             (s\<lparr>container := (container s)\<lparr>plan := (plan (container s))\<lparr>layer_summary := sm, description := d\<rparr>\<rparr>\<rparr>))) =
           mutations (trace (update_layer_and_restart s))"
proof -
  let ?s' = "s\<lparr>container := (container s)\<lparr>plan := (plan (container s))\<lparr>layer_summary := sm, description := d\<rparr>\<rparr>\<rparr>"
  have r': "reachable (container ?s')"
    using assms by simp
  have l': "pebble_layer ?s' = pebble_layer s"
    by (rule pebble_layer_cong) simp_all
  have "mutations (trace (update_layer_and_restart ?s')) = mutations (trace (update_layer_and_restart s))"
    using update_mutations [OF r'] update_mutations [OF assms] by (simp add: l')
  then show ?thesis
    using update_mutations [OF assms] update_plan [OF assms] by simp
qed

theorem plan_differ_witness:
  "reachable (container fresh_charm)
   \<and> mutations (trace (update_layer_and_restart fresh_charm)) =
       [AddLayer ''fastapi_demo'' (pebble_layer fresh_charm) True, Restart ''fastapi-service'']
   \<and> services (plan (container (update_layer_and_restart fresh_charm))) =
       services (pebble_layer fresh_charm)
   \<and> mutations (trace (update_layer_and_restart (update_layer_and_restart fresh_charm))) =
       mutations (trace (update_layer_and_restart fresh_charm))
   \<and> mutations (trace (update_layer_and_restart
         ((update_layer_and_restart fresh_charm)
            \<lparr>container := (container (update_layer_and_restart fresh_charm))
               \<lparr>plan := (plan (container (update_layer_and_restart fresh_charm)))
                  \<lparr>layer_summary := ''other summary'', description := ''other description''\<rparr>\<rparr>\<rparr>))) =
       mutations (trace (update_layer_and_restart fresh_charm))"
proof -
  let ?s1 = "update_layer_and_restart fresh_charm"
  have r: "reachable (container fresh_charm)" and t: "trace fresh_charm = []"
    and e: "services (plan (container fresh_charm)) = Map.empty"
    by (simp_all add: fresh_charm_def init_def empty_plan_def)
  have "services (plan (container fresh_charm)) pebble_service_name = None"
    by (simp add: e)
  then have ne: "services (plan (container fresh_charm)) \<noteq> services (pebble_layer fresh_charm)"
    using desired_present [of fresh_charm] by metis
  have r1: "reachable (container ?s1)"
    using r by (simp add: update_keeps_inputs)
  have p1: "services (plan (container ?s1)) = services (pebble_layer ?s1)"
    using plan_differ [OF r, where sm = "[]" and d = "[]"] ne e by (simp add: pebble_layer_update)
  show ?thesis
    using plan_differ [OF r, where sm = "[]" and d = "[]"]
      plan_differ [OF r1, where sm = "''other summary''" and d = "''other description''"] ne r t e p1
    by (simp add: pebble_layer_update pebble_service_name_def)
qed

subsection \<open>C3: the reserved port\<close>

text \<open>
  C3: when the configured port is 22, \<open>_on_config_changed\<close> sets the status to Blocked
  and returns: the only thing it does is that one status assignment. No \<open>add_layer\<close> or
  \<open>restart\<close> is issued, and the credentials, the container with its plan and the layer
  the charm would build are what they were, whatever the state before.
\<close>

theorem config_port_22_blocked:
  assumes "server_port s = 22"
  shows "on_config_changed s =
           s\<lparr>status := BlockedStatus ''invalid port number, 22 is reserved for SSH'',
             trace := trace s @ [SetStatus (BlockedStatus ''invalid port number, 22 is reserved for SSH'')]\<rparr>
       \<and> status (on_config_changed s) = BlockedStatus ''invalid port number, 22 is reserved for SSH''
       \<and> mutations (trace (on_config_changed s)) = mutations (trace s)
       \<and> app_environment (on_config_changed s) = app_environment s
       \<and> container (on_config_changed s) = container s
       \<and> pebble_layer (on_config_changed s) = pebble_layer s
       \<and> dispatch ConfigChanged s = Inr (on_config_changed s)"
  using assms by (simp add: on_config_changed_def set_status_def pebble_layer_def)

theorem config_port_22_blocked_witness:
  "server_port (fresh_charm\<lparr>server_port := 22, status := ActiveStatus\<rparr>) = 22
   \<and> status (on_config_changed (fresh_charm\<lparr>server_port := 22, status := ActiveStatus\<rparr>)) =
       BlockedStatus ''invalid port number, 22 is reserved for SSH''
   \<and> trace (on_config_changed (fresh_charm\<lparr>server_port := 22, status := ActiveStatus\<rparr>)) =
       [SetStatus (BlockedStatus ''invalid port number, 22 is reserved for SSH'')]
   \<and> container (on_config_changed (fresh_charm\<lparr>server_port := 22, status := ActiveStatus\<rparr>)) =
       \<lparr>reachable = True, plan = empty_plan\<rparr>"
  using config_port_22_blocked [of "fresh_charm\<lparr>server_port := 22, status := ActiveStatus\<rparr>"]
  by (simp add: fresh_charm_def init_def)

subsection \<open>C4: the database relation is removed\<close>

text \<open>
  C4: \<open>_on_database_relation_removed\<close> empties \<open>app_environment\<close> and sets the status
  to Waiting, and does nothing else: its one action is the status assignment, so no
  reconciliation is attempted, whatever the status and the reachability before.
\<close>

theorem relation_removed_waits:
  "on_database_relation_removed s =
     s\<lparr>app_environment := Map.empty,
       status := WaitingStatus ''Waiting for database relation'',
       trace := trace s @ [SetStatus (WaitingStatus ''Waiting for database relation'')]\<rparr>
   \<and> app_environment (on_database_relation_removed s) = Map.empty
   \<and> status (on_database_relation_removed s) = WaitingStatus ''Waiting for database relation''
   \<and> container (on_database_relation_removed s) = container s
   \<and> dispatch DatabaseRelationBroken s = Inr (on_database_relation_removed s)"
  by (simp add: on_database_relation_removed_def set_status_def)

theorem relation_removed_waits_witness:
  "app_environment (on_database_relation_removed
       (fresh_charm\<lparr>app_environment := [''DEMO_SERVER_DB_HOST'' \<mapsto> ''10.0.0.5''], status := ActiveStatus\<rparr>)) = Map.empty
   \<and> status (on_database_relation_removed
       (fresh_charm\<lparr>app_environment := [''DEMO_SERVER_DB_HOST'' \<mapsto> ''10.0.0.5''], status := ActiveStatus\<rparr>)) =
       WaitingStatus ''Waiting for database relation''
   \<and> trace (on_database_relation_removed
       (fresh_charm\<lparr>app_environment := [''DEMO_SERVER_DB_HOST'' \<mapsto> ''10.0.0.5''], status := ActiveStatus\<rparr>)) =
       [SetStatus (WaitingStatus ''Waiting for database relation'')]"
  using relation_removed_waits
    [of "fresh_charm\<lparr>app_environment := [''DEMO_SERVER_DB_HOST'' \<mapsto> ''10.0.0.5''], status := ActiveStatus\<rparr>"]
  by (simp add: fresh_charm_def init_def)

subsection \<open>C6: the workload is not reachable\<close>

text \<open>
  C6, as stated, fails in its last part. A charm that has reported version \<open>1.0.0\<close> in
  an earlier reconciliation and then finds the workload unreachable ends in Waiting, but
  the branch taken (lines 112-113) never calls \<open>set_workload_version\<close>: the reported
  version is still \<open>1.0.0\<close>, not the empty string.
\<close>

theorem unreachable_version_counterexample:
  "\<not> reachable (container unplugged_charm)
   \<and> status (update_layer_and_restart unplugged_charm) =
       WaitingStatus ''Waiting for Pebble in workload container''
   \<and> workload_version (update_layer_and_restart unplugged_charm) = ''1.0.0''"
proof -
  let ?s0 = "init 8000 \<lparr>reachable = True, plan = empty_plan\<rparr>
               (\<lambda>url. Reply (JsonObject [''version'' \<mapsto> ''1.0.0''])) (MaintenanceStatus '''') ''''"
  have r0: "reachable (container ?s0)"
    by (simp add: init_def)
  have "fst (request_version ?s0) = Inr ''1.0.0''"
    by (simp add: request_version_value init_def)
  then have v: "workload_version (update_layer_and_restart ?s0) = ''1.0.0''"
    using update_version [OF r0] by simp
  have u: "\<not> reachable (container unplugged_charm)"
    by (simp add: unplugged_charm_def Let_def)
  have "workload_version unplugged_charm = ''1.0.0''"
    using v by (simp add: unplugged_charm_def Let_def)
  then show ?thesis
    using u by (simp add: update_unreachable)
qed

text \<open>
  C6, amended: when \<open>_update_layer_and_restart\<close> runs and the workload is not reachable,
  the status becomes Waiting, no \<open>add_layer\<close> or \<open>restart\<close> is issued, and no version
  is reported: the workload version keeps the value it had (the empty string when none
  was reported before), while the \<open>version\<close> property itself evaluates to the empty
  string. This is what the pebble-ready event runs.
\<close>

theorem unreachable_waits:
  assumes "\<not> reachable (container s)"
  shows "update_layer_and_restart s =
           s\<lparr>status := WaitingStatus ''Waiting for Pebble in workload container'',
             trace := trace s @ [SetStatus (MaintenanceStatus ''Assembling pod spec''), CanConnect,
                                 SetStatus (WaitingStatus ''Waiting for Pebble in workload container'')]\<rparr>
       \<and> status (update_layer_and_restart s) = WaitingStatus ''Waiting for Pebble in workload container''
       \<and> mutations (trace (update_layer_and_restart s)) = mutations (trace s)
       \<and> workload_version (update_layer_and_restart s) = workload_version s
       \<and> fst (version s) = ''''
       \<and> dispatch DemoServerPebbleReady s = Inr (update_layer_and_restart s)"
  using assms by (simp add: update_unreachable version_value)

theorem unreachable_waits_witness:
  "\<not> reachable (container (init 8000 \<lparr>reachable = False, plan = empty_plan\<rparr> (\<lambda>url. ConnectionFailed) (MaintenanceStatus '''') ''''))
   \<and> status (update_layer_and_restart
        (init 8000 \<lparr>reachable = False, plan = empty_plan\<rparr> (\<lambda>url. ConnectionFailed) (MaintenanceStatus '''') '''')) =
       WaitingStatus ''Waiting for Pebble in workload container''
   \<and> trace (update_layer_and_restart
        (init 8000 \<lparr>reachable = False, plan = empty_plan\<rparr> (\<lambda>url. ConnectionFailed) (MaintenanceStatus '''') '''')) =
       [SetStatus (MaintenanceStatus ''Assembling pod spec''), CanConnect,
        SetStatus (WaitingStatus ''Waiting for Pebble in workload container'')]
   \<and> workload_version (update_layer_and_restart
        (init 8000 \<lparr>reachable = False, plan = empty_plan\<rparr> (\<lambda>url. ConnectionFailed) (MaintenanceStatus '''') '''')) = ''''"
  using unreachable_waits
    [of "init 8000 \<lparr>reachable = False, plan = empty_plan\<rparr> (\<lambda>url. ConnectionFailed) (MaintenanceStatus '''') ''''"]
  by (simp add: init_def)

subsection \<open>C7: the version probe fails\<close>



subsection \<open>C10: Maintenance comes first\<close>



subsection \<open>C8: the endpoint must split in two\<close>

text \<open>
  C8: \<open>_on_database_created\<close> returns normally exactly when the endpoint holds one colon,
  and then stores the text before the colon as host and the text after it as port; with
  no colon or more than one, unpacking the split raises \<open>ValueError\<close>, which the handler
  does not catch, so no status is assigned and nothing is stored. In particular every
  endpoint \<open>host:port\<close> whose host and port hold no colon is split into exactly these two.
\<close>

theorem endpoints_split:
  "on_database_created ev s =
     (if count_list (endpoints ev) CHR '':'' = 1
      then Inr (update_layer_and_restart
             (s\<lparr>app_environment :=
                  [''DEMO_SERVER_DB_HOST'' \<mapsto> takeWhile (\<lambda>x. x \<noteq> CHR '':'') (endpoints ev),
                   ''DEMO_SERVER_DB_PORT'' \<mapsto> tl (dropWhile (\<lambda>x. x \<noteq> CHR '':'') (endpoints ev)),
                   ''DEMO_SERVER_DB_USER'' \<mapsto> username ev,
                   ''DEMO_SERVER_DB_PASSWORD'' \<mapsto> password ev]\<rparr>))
      else Inl ValueError)
   \<and> (CHR '':'' \<notin> set h \<and> CHR '':'' \<notin> set p \<and> endpoints ev = h @ '':'' @ p \<longrightarrow>
        on_database_created ev s =
          Inr (update_layer_and_restart
             (s\<lparr>app_environment :=
                  [''DEMO_SERVER_DB_HOST'' \<mapsto> h,
                   ''DEMO_SERVER_DB_PORT'' \<mapsto> p,
                   ''DEMO_SERVER_DB_USER'' \<mapsto> username ev,
                   ''DEMO_SERVER_DB_PASSWORD'' \<mapsto> password ev]\<rparr>)))"
  using on_database_created_eq [of ev s] on_database_created_host_port [of h p ev s]
  by blast

theorem endpoints_split_witness:
  "on_database_created alice_event fresh_charm =
     Inr (update_layer_and_restart
            (fresh_charm\<lparr>app_environment :=
               [''DEMO_SERVER_DB_HOST'' \<mapsto> ''10.0.0.5'',
                ''DEMO_SERVER_DB_PORT'' \<mapsto> ''5432'',
                ''DEMO_SERVER_DB_USER'' \<mapsto> ''alice'',
                ''DEMO_SERVER_DB_PASSWORD'' \<mapsto> ''s3cr3t'']\<rparr>))
   \<and> on_database_created (alice_event\<lparr>endpoints := ''10.0.0.5''\<rparr>) fresh_charm = Inl ValueError
   \<and> on_database_created (alice_event\<lparr>endpoints := ''10.0.0.5:5432,10.0.0.6:5432''\<rparr>) fresh_charm =
       Inl ValueError"
  using endpoints_split [of alice_event fresh_charm "''10.0.0.5''" "''5432''"]
    endpoints_split [of "alice_event\<lparr>endpoints := ''10.0.0.5''\<rparr>" fresh_charm "[]" "[]"]
    endpoints_split [of "alice_event\<lparr>endpoints := ''10.0.0.5:5432,10.0.0.6:5432''\<rparr>" fresh_charm "[]" "[]"]
  by (simp add: alice_event_def)

subsection \<open>C9: credentials all or none\<close>



subsection \<open>C5: the layer that is built\<close>



end
